theory Spec2Isabelle
  imports Complex_Main
begin

section \<open>The load-aware batcher of batcher.go\<close>

text \<open>
  Numbers. Go's \<open>float64\<close> is embedded as \<^typ>\<open>real\<close> and Go's \<open>int\<close> and
  \<open>time.Duration\<close> as \<^typ>\<open>int\<close>: arithmetic is exact, there is no rounding, no NaN and no
  wrap-around. Every theorem below is a statement about this exact arithmetic.

  The field \<open>Custom\<close> of \<open>LoadFeedback\<close> is read by no function of batcher.go and is left out.
  The mutex, the ticker, the stop channel and the wait group are not data: the functions
  below are the critical sections of the source, each run atomically.
\<close>

subsection \<open>Data\<close>

datatype error = ErrClosed | ErrInvalidConfig | ErrHandler string

record LoadFeedback =
  CPULoad :: real
  QueueDepth :: int
  ProcessingTime :: int
  ErrorRate :: real
  DBLocks :: int

text \<open>A handler takes the batch and returns a feedback pointer (\<open>None\<close> is nil) and an
  error (\<open>None\<close> is nil).\<close>

type_synonym 'a HandlerFunc = "'a list \<Rightarrow> LoadFeedback option \<times> error option"

record 'a Config =
  InitialBatchSize :: int
  MinBatchSize :: int
  MaxBatchSize :: int
  Timeout :: int
  HandlerFunc :: "'a HandlerFunc option"
  AdjustmentFactor :: real
  LoadCheckInterval :: int

text \<open>
  The state of a \<open>Batcher\<close>. \<open>timer\<close> is True when the timer pointer is not nil;
  \<open>closed_b\<close> is the source's field \<open>closed\<close>.
  \<open>handled\<close> is a ghost field: the batches handed to the handler so far, eldest first.
\<close>

record 'a Batcher =
  batch :: "'a list"
  cfg :: "'a Config"
  timer :: bool
  closed_b :: bool
  currentBatchSize :: int
  recentFeedback :: "LoadFeedback list"
  maxFeedbackLen :: int
  handled :: "'a list list"

subsection \<open>LoadScore\<close>

definition LoadScore :: "LoadFeedback \<Rightarrow> real" where
  "LoadScore lf =
    (let score0 = 0;
         score1 = score0 + CPULoad lf * 0.6;
         queueScore = min (real_of_int (QueueDepth lf) / 100.0) 1.0;
         score2 = score1 + queueScore * 0.15;
         score3 = score2 + ErrorRate lf * 0.15;
         lockScore = min (real_of_int (DBLocks lf) / 50.0) 1.0;
         score4 = score3 + lockScore * 0.1
     in min score4 1.0)"

subsection \<open>New\<close>

definition second :: int where
  "second = 1000000000"

definition New :: "'a Config \<Rightarrow> error + 'a Batcher" where
  "New c0 =
    (if InitialBatchSize c0 \<le> 0 then Inl ErrInvalidConfig
     else
       let c1 = (if MinBatchSize c0 \<le> 0 then c0\<lparr>MinBatchSize := 1\<rparr> else c0);
           c2 = (if MaxBatchSize c1 \<le> 0 then c1\<lparr>MaxBatchSize := 1000\<rparr> else c1)
       in if MinBatchSize c2 > MaxBatchSize c2 then Inl ErrInvalidConfig
          else
            let c3 = (if InitialBatchSize c2 < MinBatchSize c2
                      then c2\<lparr>InitialBatchSize := MinBatchSize c2\<rparr> else c2);
                c4 = (if InitialBatchSize c3 > MaxBatchSize c3
                      then c3\<lparr>InitialBatchSize := MaxBatchSize c3\<rparr> else c3)
            in if HandlerFunc c4 = None then Inl ErrInvalidConfig
               else
                 let c5 = (if AdjustmentFactor c4 \<le> 0
                           then c4\<lparr>AdjustmentFactor := 0.2\<rparr> else c4);
                     c6 = (if LoadCheckInterval c5 \<le> 0
                           then c5\<lparr>LoadCheckInterval := 5 * second\<rparr> else c5)
                 in Inr \<lparr>batch = [], cfg = c6, timer = False, closed_b = False,
                         currentBatchSize = InitialBatchSize c6, recentFeedback = [],
                         maxFeedbackLen = 10, handled = []\<rparr>)"

subsection \<open>Internal methods\<close>

definition recordFeedback :: "LoadFeedback \<Rightarrow> 'a Batcher \<Rightarrow> 'a Batcher" where
  "recordFeedback feedback b =
    (let b1 = b\<lparr>recentFeedback := recentFeedback b @ [feedback]\<rparr>
     in if int (length (recentFeedback b1)) > maxFeedbackLen b1
        then b1\<lparr>recentFeedback := drop 1 (recentFeedback b1)\<rparr> else b1)"

text \<open>\<open>detachBatchLocked\<close> returns nil on an empty buffer, and nil is the empty slice.\<close>

definition detachBatchLocked :: "'a Batcher \<Rightarrow> 'a list \<times> 'a Batcher" where
  "detachBatchLocked b =
    (if length (batch b) = 0 then ([], b) else (batch b, b\<lparr>batch := []\<rparr>))"

definition stopTimerLocked :: "'a Batcher \<Rightarrow> 'a Batcher" where
  "stopTimerLocked b = (if timer b then b\<lparr>timer := False\<rparr> else b)"

definition startTimerLocked :: "'a Batcher \<Rightarrow> 'a Batcher" where
  "startTimerLocked b = b\<lparr>timer := True\<rparr>"

text \<open>The handler of a batcher made by \<open>New\<close> is never nil; a nil handler called in Go
  panics, which is the error \<open>ErrHandler ''nil handler''\<close> here.\<close>

definition callHandler :: "'a Batcher \<Rightarrow> 'a list \<Rightarrow> LoadFeedback option \<times> error option" where
  "callHandler b bt =
    (case HandlerFunc (cfg b) of
       None \<Rightarrow> (None, Some (ErrHandler ''nil handler''))
     | Some h \<Rightarrow> h bt)"

text \<open>\<open>absorb\<close> is the second half of \<open>processBatch\<close>: under the lock again, the
  feedback, when there is one, goes into the ring.\<close>

definition absorb :: "LoadFeedback option \<Rightarrow> 'a Batcher \<Rightarrow> 'a Batcher" where
  "absorb feedback b = (case feedback of None \<Rightarrow> b | Some f \<Rightarrow> recordFeedback f b)"

definition processBatch :: "'a list \<Rightarrow> 'a Batcher \<Rightarrow> error option \<times> 'a Batcher" where
  "processBatch bt b =
    (let (feedback, err) = callHandler b bt
     in (err, absorb feedback b))"

text \<open>The loop of \<open>adjustBatchSize\<close> that sums the scores, and the division after it.\<close>

definition avgLoad :: "LoadFeedback list \<Rightarrow> real" where
  "avgLoad fs = foldl (\<lambda>a f. a + LoadScore f) 0.0 fs / real (length fs)"

text \<open>Go's conversion \<open>int(x)\<close> of a float truncates toward zero.\<close>

definition go_int :: "real \<Rightarrow> int" where
  "go_int x = (if 0 \<le> x then \<lfloor>x\<rfloor> else \<lceil>x\<rceil>)"

definition adjustBatchSize :: "'a Batcher \<Rightarrow> 'a Batcher" where
  "adjustBatchSize b =
    (if length (recentFeedback b) = 0 then b
     else
       let avg = avgLoad (recentFeedback b);
           newSize0 = currentBatchSize b;
           newSize1 =
             (if avg < 0.25 then
                (let increase = real_of_int (currentBatchSize b) * AdjustmentFactor (cfg b)
                 in currentBatchSize b + go_int (max increase 1))
              else if avg > 0.55 then
                (let decrease = real_of_int (currentBatchSize b) * AdjustmentFactor (cfg b)
                 in currentBatchSize b - go_int (max decrease 1))
              else newSize0);
           newSize2 = (if newSize1 < MinBatchSize (cfg b) then MinBatchSize (cfg b) else newSize1);
           newSize3 = (if newSize2 > MaxBatchSize (cfg b) then MaxBatchSize (cfg b) else newSize2)
       in b\<lparr>currentBatchSize := newSize3\<rparr>)"

subsection \<open>Add, Flush, Close\<close>

text \<open>
  Each public method holds the lock for a first part and then, when it has detached a
  batch, calls \<open>processBatch\<close> without the lock. The first part returns either the
  method's result or the batch to process.
\<close>

datatype 'a locked = Return "error option" | Process "'a list"

definition Add_locked :: "'a \<Rightarrow> 'a Batcher \<Rightarrow> 'a locked \<times> 'a Batcher" where
  "Add_locked item b =
    (if closed_b b then (Return (Some ErrClosed), b)
     else
       let wasEmpty = (length (batch b) = 0);
           b1 = b\<lparr>batch := batch b @ [item]\<rparr>
       in if int (length (batch b1)) \<ge> currentBatchSize b1 then
            (let (bt, b2) = detachBatchLocked b1;
                 b3 = stopTimerLocked b2
             in (Process bt, b3\<lparr>handled := handled b3 @ [bt]\<rparr>))
          else if wasEmpty \<and> Timeout (cfg b1) > 0 \<and> \<not> timer b1 then
            (Return None, startTimerLocked b1)
          else (Return None, b1))"

definition Flush_locked :: "'a Batcher \<Rightarrow> 'a locked \<times> 'a Batcher" where
  "Flush_locked b =
    (if length (batch b) = 0 then (Return None, b)
     else
       let (bt, b2) = detachBatchLocked b;
           b3 = stopTimerLocked b2
       in (Process bt, b3\<lparr>handled := handled b3 @ [bt]\<rparr>))"

definition finish :: "'a locked \<times> 'a Batcher \<Rightarrow> error option \<times> 'a Batcher" where
  "finish r = (case r of (Return e, b) \<Rightarrow> (e, b) | (Process bt, b) \<Rightarrow> processBatch bt b)"

definition Add :: "'a \<Rightarrow> 'a Batcher \<Rightarrow> error option \<times> 'a Batcher" where
  "Add item b = finish (Add_locked item b)"

definition Flush :: "'a Batcher \<Rightarrow> error option \<times> 'a Batcher" where
  "Flush b = finish (Flush_locked b)"

text \<open>The first part of \<open>Close\<close>: None when the batcher was closed already (Close
  returns nil), else the state with the flag set.\<close>

definition Close_locked :: "'a Batcher \<Rightarrow> 'a Batcher option" where
  "Close_locked b = (if closed_b b then None else Some (b\<lparr>closed_b := True\<rparr>))"

definition Close :: "'a Batcher \<Rightarrow> error option \<times> 'a Batcher" where
  "Close b =
    (case Close_locked b of
       None \<Rightarrow> (None, b)
     | Some b1 \<Rightarrow> Flush b1)"

subsection \<open>Interleavings\<close>

text \<open>
  What another goroutine can see is a sequence of critical sections. An event is one of
  them: the locked part of \<open>Add\<close>, of \<open>Flush\<close> (also the timer's callback) and of
  \<open>Close\<close>, the recording of a feedback at the end of some \<open>processBatch\<close>, and one
  step of the controller. Any feedback may be recorded at any moment and the controller
  may step at any moment: the runs of the program are among the runs of events.
\<close>

datatype 'a event = EvAdd 'a | EvFlush | EvClose | EvRecord LoadFeedback | EvAdjust

definition apply_event :: "'a event \<Rightarrow> 'a Batcher \<Rightarrow> 'a Batcher" where
  "apply_event ev b =
    (case ev of
       EvAdd item \<Rightarrow> snd (Add_locked item b)
     | EvFlush \<Rightarrow> snd (Flush_locked b)
     | EvClose \<Rightarrow> (case Close_locked b of None \<Rightarrow> b | Some b1 \<Rightarrow> b1)
     | EvRecord f \<Rightarrow> recordFeedback f b
     | EvAdjust \<Rightarrow> adjustBatchSize b)"

fun run :: "'a event list \<Rightarrow> 'a Batcher \<Rightarrow> 'a Batcher" where
  "run [] b = b"
| "run (ev # evs) b = run evs (apply_event ev b)"

text \<open>A sequential client: whole calls of the public methods, each with its handler call,
  and ticks of the controller between them.\<close>

datatype 'a call = CallAdd 'a | CallFlush | CallClose | Tick

definition perform :: "'a call \<Rightarrow> 'a Batcher \<Rightarrow> 'a Batcher" where
  "perform c b =
    (case c of
       CallAdd item \<Rightarrow> snd (Add item b)
     | CallFlush \<Rightarrow> snd (Flush b)
     | CallClose \<Rightarrow> snd (Close b)
     | Tick \<Rightarrow> adjustBatchSize b)"

fun perform_all :: "'a call list \<Rightarrow> 'a Batcher \<Rightarrow> 'a Batcher" where
  "perform_all [] b = b"
| "perform_all (c # cs) b = perform_all cs (perform c b)"

subsection \<open>The words of the specification\<close>






text \<open>A feedback with the given CPU load and every other field zero.\<close>

definition cpu_only :: "real \<Rightarrow> LoadFeedback" where
  "cpu_only c = \<lparr>CPULoad = c, QueueDepth = 0, ProcessingTime = 0, ErrorRate = 0, DBLocks = 0\<rparr>"

definition constant_handler :: "LoadFeedback \<Rightarrow> 'a HandlerFunc" where
  "constant_handler f = (\<lambda>bt. (Some f, None))"

subsection \<open>Invariants\<close>

text \<open>The current size lies between the bounds and the lower bound is positive.\<close>

definition sized :: "'a Batcher \<Rightarrow> bool" where
  "sized b =
    (MinBatchSize (cfg b) \<le> currentBatchSize b \<and> currentBatchSize b \<le> MaxBatchSize (cfg b)
     \<and> 1 \<le> MinBatchSize (cfg b))"




subsection \<open>Concrete configurations\<close>

text \<open>A configuration over items of type \<open>nat\<close> with a constant handler, and the batcher
  that \<open>New\<close> makes of it once the defaults are in.\<close>

definition demo_cfg :: "LoadFeedback \<Rightarrow> int \<Rightarrow> int \<Rightarrow> int \<Rightarrow> real \<Rightarrow> nat Config" where
  "demo_cfg f i lo hi a =
    \<lparr>InitialBatchSize = i, MinBatchSize = lo, MaxBatchSize = hi, Timeout = 0,
     HandlerFunc = Some (constant_handler f), AdjustmentFactor = a, LoadCheckInterval = 0\<rparr>"

definition demo_start :: "LoadFeedback \<Rightarrow> int \<Rightarrow> int \<Rightarrow> int \<Rightarrow> real \<Rightarrow> nat Batcher" where
  "demo_start f i lo hi a =
    \<lparr>batch = [],
     cfg = \<lparr>InitialBatchSize = i, MinBatchSize = lo, MaxBatchSize = hi, Timeout = 0,
            HandlerFunc = Some (constant_handler f), AdjustmentFactor = a,
            LoadCheckInterval = 5 * second\<rparr>,
     timer = False, closed_b = False, currentBatchSize = i, recentFeedback = [],
     maxFeedbackLen = 10, handled = []\<rparr>"


section \<open>The load score\<close>

text \<open>
  C6. For every feedback record the load score is
  min(1, 0.60 cpu_load + 0.15 min(queue_depth/100, 1) + 0.15 error_rate
  + 0.10 min(db_locks/50, 1)), and the three records of the score-range scenario score
  in [0, 0.3], in [0.3, 0.7] and in [0.7, 1].
\<close>

theorem LoadScore_formula:
  "LoadScore lf =
     min 1 (0.60 * CPULoad lf + 0.15 * min (real_of_int (QueueDepth lf) / 100) 1
            + 0.15 * ErrorRate lf + 0.10 * min (real_of_int (DBLocks lf) / 50) 1)
   \<and> 0.0 \<le> LoadScore \<lparr>CPULoad = 0.1, QueueDepth = 5, ProcessingTime = 0,
                         ErrorRate = 0, DBLocks = 2\<rparr>
   \<and> LoadScore \<lparr>CPULoad = 0.1, QueueDepth = 5, ProcessingTime = 0,
                 ErrorRate = 0, DBLocks = 2\<rparr> \<le> 0.3
   \<and> 0.3 \<le> LoadScore \<lparr>CPULoad = 0.5, QueueDepth = 50, ProcessingTime = 0,
                         ErrorRate = 0.05, DBLocks = 20\<rparr>
   \<and> LoadScore \<lparr>CPULoad = 0.5, QueueDepth = 50, ProcessingTime = 0,
                 ErrorRate = 0.05, DBLocks = 20\<rparr> \<le> 0.7
   \<and> 0.7 \<le> LoadScore \<lparr>CPULoad = 0.9, QueueDepth = 150, ProcessingTime = 0,
                         ErrorRate = 0.2, DBLocks = 60\<rparr>
   \<and> LoadScore \<lparr>CPULoad = 0.9, QueueDepth = 150, ProcessingTime = 0,
                 ErrorRate = 0.2, DBLocks = 60\<rparr> \<le> 1.0"
  by (simp add: LoadScore_def Let_def min_def algebra_simps)



section \<open>The controller step\<close>




section \<open>Construction\<close>


lemma New_sized: "New c = Inr b \<Longrightarrow> sized b"
  by (auto simp: New_def sized_def Let_def split: if_splits)


section \<open>Invariants of every interleaving\<close>

lemmas locked_defs = Add_locked_def Flush_locked_def Close_locked_def detachBatchLocked_def
  stopTimerLocked_def startTimerLocked_def recordFeedback_def

lemma apply_event_cfg: "cfg (apply_event ev b) = cfg b"
  by (cases ev)
    (simp_all add: apply_event_def locked_defs adjustBatchSize_def Let_def split: option.splits)


lemma adjust_in_bounds:
  assumes "MinBatchSize (cfg b) \<le> MaxBatchSize (cfg b)"
    and "MinBatchSize (cfg b) \<le> currentBatchSize b"
    and "currentBatchSize b \<le> MaxBatchSize (cfg b)"
  shows "MinBatchSize (cfg b) \<le> currentBatchSize (adjustBatchSize b)
       \<and> currentBatchSize (adjustBatchSize b) \<le> MaxBatchSize (cfg b)"
  using assms by (simp add: adjustBatchSize_def Let_def)

lemma apply_event_size:
  "ev \<noteq> EvAdjust \<Longrightarrow> currentBatchSize (apply_event ev b) = currentBatchSize b"
  by (cases ev) (simp_all add: apply_event_def locked_defs Let_def)

lemma apply_event_sized: "sized b \<Longrightarrow> sized (apply_event ev b)"
proof (cases "ev = EvAdjust")
  case True
  assume "sized b"
  then show ?thesis using adjust_in_bounds[of b] True
    by (simp add: sized_def apply_event_def adjustBatchSize_def Let_def)
next
  case False
  assume "sized b"
  then show ?thesis using False by (simp add: sized_def apply_event_cfg apply_event_size)
qed

lemma run_sized: "sized b \<Longrightarrow> sized (run evs b)"
  by (induction evs arbitrary: b) (simp_all add: apply_event_sized)


lemma run_cfg: "cfg (run evs b) = cfg b"
  by (induction evs arbitrary: b) (simp_all add: apply_event_cfg)

text \<open>
  C7. After a successful \<open>New\<close>, min_size \<le> current_size \<le> max_size in every state
  that any interleaving of the critical sections reaches: it holds for the value that
  \<open>New\<close> sets (the empty run) and every event keeps it.
\<close>

theorem size_in_bounds:
  assumes "New c = Inr b0"
  shows "MinBatchSize (cfg (run evs b0)) \<le> currentBatchSize (run evs b0)
       \<and> currentBatchSize (run evs b0) \<le> MaxBatchSize (cfg (run evs b0))"
  using run_sized[OF New_sized[OF assms], of evs] by (simp add: sized_def)

section \<open>The feedback ring\<close>




section \<open>The size trigger\<close>








section \<open>After Close\<close>

lemma Flush_empties: "batch (snd (Flush b)) = [] \<and> closed_b (snd (Flush b)) = closed_b b"
  by (auto simp: Flush_def finish_def Flush_locked_def processBatch_def absorb_def
      detachBatchLocked_def stopTimerLocked_def recordFeedback_def Let_def
      split: prod.splits option.splits)

lemma Close_closes:
  assumes "\<not> closed_b b"
  shows "closed_b (snd (Close b)) \<and> batch (snd (Close b)) = []"
  using assms Flush_empties[of "b\<lparr>closed_b := True\<rparr>"] by (simp add: Close_def Close_locked_def)

lemma apply_event_closed:
  assumes "closed_b b" and "batch b = []"
  shows "closed_b (apply_event ev b) \<and> batch (apply_event ev b) = []
       \<and> handled (apply_event ev b) = handled b"
  using assms
  by (cases ev) (auto simp: apply_event_def locked_defs adjustBatchSize_def Let_def)

lemma run_closed:
  "closed_b b \<Longrightarrow> batch b = [] \<Longrightarrow>
   closed_b (run evs b) \<and> batch (run evs b) = [] \<and> handled (run evs b) = handled b"
proof (induction evs arbitrary: b)
  case Nil
  then show ?case by simp
next
  case (Cons ev evs)
  note a = apply_event_closed[OF Cons.prems, of ev]
  from Cons.IH[of "apply_event ev b"] a show ?case by simp
qed

lemma apply_event_stays_closed: "closed_b b \<Longrightarrow> closed_b (apply_event ev b)"
  by (cases ev) (auto simp: apply_event_def locked_defs adjustBatchSize_def Let_def)

lemma run_stays_closed: "closed_b b \<Longrightarrow> closed_b (run evs b)"
  by (induction evs arbitrary: b) (simp_all add: apply_event_stays_closed)

text \<open>
  C8. Let the first \<open>Close\<close> run on a batcher that is not closed: its locked part sets
  the flag, other goroutines may run critical sections (\<open>mid\<close>) before its final
  \<open>Flush\<close>, and with none of them this is \<open>Close\<close> itself. After it has returned, and
  after any further critical sections, \<open>Add\<close> returns \<open>ErrClosed\<close>, \<open>Flush\<close> and
  \<open>Close\<close> return nil, each leaves the state as it is, and no batch has been handed to
  the handler since the first \<open>Close\<close> returned.
\<close>

theorem closed_rejection:
  assumes "Close_locked b = Some bc" and "b1 = snd (Flush (run mid bc))" and "b2 = run evs b1"
  shows "Close b = Flush bc
       \<and> Add item b2 = (Some ErrClosed, b2) \<and> Flush b2 = (None, b2) \<and> Close b2 = (None, b2)
       \<and> handled b2 = handled b1"
proof -
  have "closed_b bc" using assms(1) by (auto simp: Close_locked_def split: if_splits)
  then have "closed_b (run mid bc)" by (rule run_stays_closed)
  then have "closed_b b1" "batch b1 = []"
    using Flush_empties[of "run mid bc"] by (simp_all add: assms(2))
  from run_closed[OF this, of evs]
  have c: "closed_b b2" "batch b2 = []" "handled b2 = handled b1"
    by (simp_all add: assms(3))
  show ?thesis using c assms(1)
    by (simp add: Add_def Add_locked_def finish_def Flush_def Flush_locked_def
        Close_def Close_locked_def)
qed

text \<open>
  C10. \<open>Add\<close> on a closed batcher returns \<open>ErrClosed\<close> and the state after it is the
  state before it, in every field: the pending buffer, the current size, the timer, the
  ring, the flag and the batches handed to the handler.
\<close>

theorem Add_closed: "closed_b b \<Longrightarrow> Add item b = (Some ErrClosed, b)"
  by (simp add: Add_def Add_locked_def finish_def)

section \<open>The controller under a constant handler\<close>
























section \<open>Concrete runs\<close>

lemmas eval_defs = demo_cfg_def demo_start_def New_def perform_def Add_def Flush_def Close_def
  finish_def processBatch_def callHandler_def absorb_def constant_handler_def
  Add_locked_def Flush_locked_def Close_locked_def detachBatchLocked_def stopTimerLocked_def
  startTimerLocked_def recordFeedback_def adjustBatchSize_def avgLoad_def LoadScore_def
  cpu_only_def go_int_def apply_event_def Let_def











theorem size_in_bounds_witness:
  "New (demo_cfg (cpu_only 1) 3 0 0 0) = Inr (demo_start (cpu_only 1) 3 1 1000 0.2)
   \<and> MinBatchSize (cfg (run [EvAdd 1, EvAdd 2, EvAdd 3, EvRecord (cpu_only 1), EvAdjust]
        (demo_start (cpu_only 1) 3 1 1000 0.2)))
      \<le> currentBatchSize (run [EvAdd 1, EvAdd 2, EvAdd 3, EvRecord (cpu_only 1), EvAdjust]
        (demo_start (cpu_only 1) 3 1 1000 0.2))
   \<and> currentBatchSize (run [EvAdd 1, EvAdd 2, EvAdd 3, EvRecord (cpu_only 1), EvAdjust]
        (demo_start (cpu_only 1) 3 1 1000 0.2))
      \<le> MaxBatchSize (cfg (run [EvAdd 1, EvAdd 2, EvAdd 3, EvRecord (cpu_only 1), EvAdjust]
        (demo_start (cpu_only 1) 3 1 1000 0.2)))"
proof -
  have s: "New (demo_cfg (cpu_only 1) 3 0 0 0) = Inr (demo_start (cpu_only 1) 3 1 1000 0.2)"
    by (simp add: eval_defs)
  from size_in_bounds[OF s, of "[EvAdd 1, EvAdd 2, EvAdd 3, EvRecord (cpu_only 1), EvAdjust]"] s
  show ?thesis by blast
qed

theorem closed_rejection_witness:
  "Close_locked (perform_all [CallAdd 1] (demo_start (cpu_only 1) 3 1 1000 0.2))
     = Some ((perform_all [CallAdd 1] (demo_start (cpu_only 1) 3 1 1000 0.2))\<lparr>closed_b := True\<rparr>)
   \<and> handled (snd (Close (perform_all [CallAdd 1] (demo_start (cpu_only 1) 3 1 1000 0.2))))
      = [[1]]
   \<and> fst (Add 9 (run [EvAdd 7, EvFlush, EvClose, EvAdjust]
        (snd (Close (perform_all [CallAdd 1] (demo_start (cpu_only 1) 3 1 1000 0.2))))))
      = Some ErrClosed
   \<and> fst (Flush (run [EvAdd 7, EvFlush, EvClose, EvAdjust]
        (snd (Close (perform_all [CallAdd 1] (demo_start (cpu_only 1) 3 1 1000 0.2))))))
      = None
   \<and> fst (Close (run [EvAdd 7, EvFlush, EvClose, EvAdjust]
        (snd (Close (perform_all [CallAdd 1] (demo_start (cpu_only 1) 3 1 1000 0.2))))))
      = None
   \<and> handled (run [EvAdd 7, EvFlush, EvClose, EvAdjust]
        (snd (Close (perform_all [CallAdd 1] (demo_start (cpu_only 1) 3 1 1000 0.2)))))
      = [[1]]"
proof -
  let ?b = "perform_all [CallAdd 1] (demo_start (cpu_only 1) 3 1 1000 0.2)"
  have o: "Close_locked ?b = Some (?b\<lparr>closed_b := True\<rparr>)" by (simp add: eval_defs)
  have h: "handled (snd (Close ?b)) = [[1]]" by (simp add: eval_defs)
  from closed_rejection[where mid = "[]" and item = 9
      and evs = "[EvAdd 7, EvFlush, EvClose, EvAdjust]", OF o refl refl] o h
  show ?thesis by simp
qed


theorem Add_closed_witness:
  "closed_b (snd (Close (demo_start (cpu_only 1) 3 1 1000 0.2)))
   \<and> Add 5 (snd (Close (demo_start (cpu_only 1) 3 1 1000 0.2)))
      = (Some ErrClosed, snd (Close (demo_start (cpu_only 1) 3 1 1000 0.2)))"
proof -
  have c: "closed_b (snd (Close (demo_start (cpu_only 1) 3 1 1000 0.2)))" by (simp add: eval_defs)
  from Add_closed[OF c, of 5] c show ?thesis by simp
qed

end
